theory Spec2Isabelle
  imports Main "HOL-Library.Sublist"
begin

section \<open>Values handed to the condition compiler\<close>

text \<open>
  A clause of the search specification is a Go \<^verbatim>\<open>map[string]interface{}\<close> with the entries
  \<^verbatim>\<open>"query"\<close> and \<^verbatim>\<open>"args"\<close>. The dynamic values that the type switches of
  \<^verbatim>\<open>buildWhereCondition\<close> and \<^verbatim>\<open>buildNotCondition\<close> tell apart are the constructors
  of \<open>gval\<close>:
  \<^item> \<open>Nil_v\<close>: the nil interface value;
  \<^item> \<open>Int_v k i\<close>: a value of one of the ten built-in integer types;
  \<^item> \<open>String_v s\<close>: a \<^verbatim>\<open>string\<close> (a byte sequence);
  \<^item> \<open>NullInt64_v i valid\<close>: \<^verbatim>\<open>sql.NullInt64{Int64: i, Valid: valid}\<close>;
  \<^item> \<open>Slice_v e xs\<close>: a slice with element type \<open>e\<close> (reflect kind \<^verbatim>\<open>Slice\<close>);
  \<^item> \<open>Map_v kvs\<close>: a \<^verbatim>\<open>map[string]interface{}\<close>, its entries listed in the order in which
    \<^verbatim>\<open>range\<close> visits them (Go leaves that order open; the model takes it as given);
  \<^item> \<open>Valuer_v v\<close>: a value of any other non-slice type that implements
    \<^verbatim>\<open>driver.Valuer\<close>, whose \<^verbatim>\<open>Value()\<close> returns \<open>v\<close>;
  \<^item> \<open>Other_v name\<close>: any other non-nil value (a struct, a pointer, a bool, a float, a
    value of a named type, ...), identified by a label.
\<close>

datatype ikind =
  K_int | K_int8 | K_int16 | K_int32 | K_int64
  | K_uint | K_uint8 | K_uint16 | K_uint32 | K_uint64

datatype etype = E_int ikind | E_string | E_interface | E_other

datatype gval =
  Nil_v
  | Int_v ikind int
  | String_v string
  | NullInt64_v int bool
  | Slice_v etype "gval list"
  | Map_v "(string \<times> gval) list"
  | Valuer_v gval
  | Other_v string

type_synonym clause = "string \<rightharpoonup> gval"

text \<open>The two run-time panics of the clause compiler: a failed type assertion
  \<^verbatim>\<open>clause["args"].([]interface{})\<close>, and \<^verbatim>\<open>reflect.TypeOf(arg).Kind()\<close> on a nil
  interface value (\<^verbatim>\<open>TypeOf\<close> returns a nil \<^verbatim>\<open>Type\<close>).\<close>

datatype panic = InterfaceConversion | NilPointerDereference

section \<open>Strings\<close>

text \<open>\<^verbatim>\<open>strings.Join(elems, sep)\<close>.\<close>

fun Join :: "string list \<Rightarrow> string \<Rightarrow> string" where
  "Join [] sep = []"
| "Join [a] sep = a"
| "Join (a # b # r) sep = a @ sep @ Join (b # r) sep"

text \<open>\<^verbatim>\<open>strings.Replace(s, "?", new, 1)\<close>: the first question mark of \<open>s\<close>, if there is
  one, is replaced by \<open>new\<close>.\<close>

fun Replace1 :: "string \<Rightarrow> string \<Rightarrow> string" where
  "Replace1 [] new = []"
| "Replace1 (c # s) new = (if c = CHR ''?'' then new @ s else c # Replace1 s new)"

text \<open>The character classes \<^verbatim>\<open>\s\<close> (tab, line feed, form feed, carriage return, space) and
  \<^verbatim>\<open>\d\<close> of Go's regular expressions.\<close>

definition is_space :: "char \<Rightarrow> bool" where
  "is_space c = (c = CHR 0x09 \<or> c = CHR 0x0A \<or> c = CHR 0x0C \<or> c = CHR 0x0D \<or> c = CHR 0x20)"

definition is_digit :: "char \<Rightarrow> bool" where
  "is_digit c = (48 \<le> (of_char c :: nat) \<and> (of_char c :: nat) \<le> 57)"

text \<open>\<^verbatim>\<open>regexp.MustCompile("^\\s*\\d+\\s*$").MatchString(value)\<close>: white space, one or more
  digits, white space, and nothing else.\<close>

definition isNumber :: "string \<Rightarrow> bool" where
  "isNumber s =
     (let r = dropWhile is_space s
      in takeWhile is_digit r \<noteq> [] \<and> list_all is_space (dropWhile is_digit r))"

text \<open>\<^verbatim>\<open>strconv.Atoi\<close> on a platform with 64-bit \<^verbatim>\<open>int\<close>: an optional sign and one or more
  digits; 0 on a syntax error (the error itself is dropped by both callers), the nearest
  bound when the number is out of range.\<close>

definition digits_value :: "string \<Rightarrow> nat" where
  "digits_value s = foldl (\<lambda>a c. 10 * a + (of_char c - 48)) 0 s"

definition Atoi :: "string \<Rightarrow> int" where
  "Atoi s =
     (let neg = (s \<noteq> [] \<and> hd s = CHR ''-'');
          ds = (if s \<noteq> [] \<and> (hd s = CHR ''-'' \<or> hd s = CHR ''+'') then tl s else s)
      in if ds = [] \<or> \<not> list_all is_digit ds then 0
         else if neg then max (- int (digits_value ds)) (- (2 ^ 63))
         else min (int (digits_value ds)) (2 ^ 63 - 1))"

text \<open>\<^verbatim>\<open>fmt.Sprintf("%v", i)\<close> for an integer: its decimal digits.\<close>

fun nat_dec_fuel :: "nat \<Rightarrow> nat \<Rightarrow> string" where
  "nat_dec_fuel 0 n = []"
| "nat_dec_fuel (Suc f) n =
     (if n < 10 then [char_of (48 + n)]
      else nat_dec_fuel f (n div 10) @ [char_of (48 + n mod 10)])"

definition nat_dec :: "nat \<Rightarrow> string" where
  "nat_dec n = nat_dec_fuel (Suc n) n"

definition int_dec :: "int \<Rightarrow> string" where
  "int_dec i = (if i < 0 then CHR ''-'' # nat_dec (nat (- i)) else nat_dec (nat i))"

text \<open>Whether \<open>p\<close> occurs in \<open>s\<close>, letters compared without regard to case. Go's \<^verbatim>\<open>(?i)\<close>
  folds by Unicode simple case folding, under which \<^verbatim>\<open>k\<close> also matches U+212A (bytes
  E2 84 AA) and \<^verbatim>\<open>s\<close> also matches U+017F (bytes C5 BF).\<close>

definition lower :: "char \<Rightarrow> char" where
  "lower c = (if 65 \<le> (of_char c :: nat) \<and> (of_char c :: nat) \<le> 90
              then char_of ((of_char c :: nat) + 32) else c)"

fun match_fold :: "string \<Rightarrow> string \<Rightarrow> bool" where
  "match_fold [] s = True"
| "match_fold (p # ps) s =
     (case s of
        [] \<Rightarrow> False
      | c # cs \<Rightarrow>
          if lower c = lower p then match_fold ps cs
          else if lower p = CHR ''k'' \<and> take 3 s = [CHR 0xE2, CHR 0x84, CHR 0xAA]
            then match_fold ps (drop 3 s)
          else if lower p = CHR ''s'' \<and> take 2 s = [CHR 0xC5, CHR 0xBF]
            then match_fold ps (drop 2 s)
          else False)"

fun contains_fold :: "string \<Rightarrow> string \<Rightarrow> bool" where
  "contains_fold p [] = match_fold p []"
| "contains_fold p (c # cs) = (match_fold p (c # cs) \<or> contains_fold p cs)"

text \<open>\<^verbatim>\<open>regexp.MustCompile("(?i) (=|<>|>|<|LIKE|IS) ").MatchString(value)\<close>.\<close>

definition hasComparison :: "string \<Rightarrow> bool" where
  "hasComparison s =
     list_ex (\<lambda>op. contains_fold ('' '' @ op @ '' '') s)
       [''='', ''<>'', ''>'', ''<'', ''LIKE'', ''IS'']"

section \<open>The scope\<close>

text \<open>A field of the value a scope works on, as \<^verbatim>\<open>Fields()\<close> lists it: the column name,
  whether the field holds its zero value, and the field's value.\<close>

record Field =
  FieldDBName :: string
  IsBlank :: bool
  FieldInterface :: gval

record search =
  WhereConditions :: "clause list"
  OrConditions :: "clause list"
  NotConditions :: "clause list"
  Unscope :: bool

text \<open>
  The scope: the search specification, the accumulated bound values \<open>SqlVars\<close>, and what
  the methods of \<^verbatim>\<open>Scope\<close> and of the dialect that are declared outside the two files at hand
  answer. These are taken as components of the scope:
  \<^item> \<open>BinVar n\<close>: the dialect's marker for the \<open>n\<close>-th bound value;
  \<^item> \<open>Quote\<close>, \<open>PrimaryKey\<close>, \<open>QuotedTableName\<close>, \<open>PrimaryKeyZero\<close>,
    \<open>PrimaryKeyValue\<close>: the results of the methods of these names;
  \<^item> \<open>Fields\<close>: the result of \<^verbatim>\<open>scope.Fields()\<close>, a map from column names to fields;
  \<^item> \<open>NewFields v\<close>: the fields \<^verbatim>\<open>scope.New(v).Fields()\<close> of a value \<open>v\<close>, in the order in
    which \<^verbatim>\<open>range\<close> visits them (a value that is no struct has none).
\<close>

record scope =
  Search :: search
  SqlVars :: "gval list"
  BinVar :: "nat \<Rightarrow> string"
  Quote :: "string \<Rightarrow> string"
  PrimaryKey :: string
  QuotedTableName :: string
  PrimaryKeyZero :: bool
  PrimaryKeyValue :: gval
  Fields :: "string \<rightharpoonup> Field"
  NewFields :: "gval \<Rightarrow> Field list"

text \<open>Modelled from the spec: \<^verbatim>\<open>AddToVars\<close> is a method of \<^verbatim>\<open>Scope\<close> declared outside the two
  files at hand. By the spec a bound value is appended to the scope's bound-value list and
  the text receives a positional marker for it; the marker is the dialect's, for the new
  length of the list.\<close>

definition AddToVars :: "scope \<Rightarrow> gval \<Rightarrow> string \<times> scope" where
  "AddToVars scope v =
     (let scope' = scope\<lparr>SqlVars := SqlVars scope @ [v]\<rparr>
      in (BinVar scope' (length (SqlVars scope')), scope'))"

text \<open>\<^verbatim>\<open>primaryCondition\<close>: \<^verbatim>\<open>fmt.Sprintf("(%v = %v)", scope.Quote(scope.PrimaryKey()), value)\<close>
  for a string \<open>v\<close>.\<close>

definition primaryCondition :: "scope \<Rightarrow> string \<Rightarrow> string" where
  "primaryCondition scope v = ''('' @ Quote scope (PrimaryKey scope) @ '' = '' @ v @ '')''"

section \<open>Compiling one clause\<close>

text \<open>The inner loop of the slice case (lines 55-57, 117-119): one bound value and one
  marker per element.\<close>

fun addMarks :: "scope \<Rightarrow> gval list \<Rightarrow> string list \<Rightarrow> string list \<times> scope" where
  "addMarks scope [] tempMarks = (tempMarks, scope)"
| "addMarks scope (v # vs) tempMarks =
     (let (m, scope') = AddToVars scope v in addMarks scope' vs (tempMarks @ [m]))"

text \<open>\<^verbatim>\<open>if valuer, ok := interface{}(arg).(driver.Valuer); ok { arg, _ = valuer.Value() }\<close>.
  \<^verbatim>\<open>sql.NullInt64\<close> returns nil when it is not valid and its \<^verbatim>\<open>int64\<close> otherwise.\<close>

fun valuerValue :: "gval \<Rightarrow> gval" where
  "valuerValue (NullInt64_v i valid) = (if valid then Int_v K_int64 i else Nil_v)"
| "valuerValue (Valuer_v v) = v"
| "valuerValue v = v"

text \<open>The loop over the arguments of \<^verbatim>\<open>buildWhereCondition\<close> (lines 50-66).\<close>

fun whereArgs :: "scope \<Rightarrow> string \<Rightarrow> gval list \<Rightarrow> panic + (string \<times> scope)" where
  "whereArgs scope str [] = Inr (str, scope)"
| "whereArgs scope str (arg # args) =
     (case arg of
        Nil_v \<Rightarrow> Inl NilPointerDereference
      | Slice_v e vs \<Rightarrow>
          (let (tempMarks, scope') = addMarks scope vs []
           in whereArgs scope' (Replace1 str (Join tempMarks '','')) args)
      | _ \<Rightarrow>
          (let (m, scope') = AddToVars scope (valuerValue arg)
           in whereArgs scope' (Replace1 str m) args))"

text \<open>The loop over the arguments of \<^verbatim>\<open>buildNotCondition\<close> (lines 112-127). In the default
  case the text is rebuilt from \<open>notEqualSql\<close>, not from \<open>str\<close>.\<close>

fun notArgs :: "scope \<Rightarrow> string \<Rightarrow> string \<Rightarrow> gval list \<Rightarrow> panic + (string \<times> scope)" where
  "notArgs scope notEqualSql str [] = Inr (str, scope)"
| "notArgs scope notEqualSql str (arg # args) =
     (case arg of
        Nil_v \<Rightarrow> Inl NilPointerDereference
      | Slice_v e vs \<Rightarrow>
          (let (tempMarks, scope') = addMarks scope vs []
           in notArgs scope' notEqualSql (Replace1 str (Join tempMarks '','')) args)
      | _ \<Rightarrow>
          (let (m, scope') = AddToVars scope (valuerValue arg)
           in notArgs scope' notEqualSql (Replace1 notEqualSql m) args))"

text \<open>\<^verbatim>\<open>clause["args"].([]interface{})\<close>: the entry must hold a \<^verbatim>\<open>[]interface{}\<close>; a missing
  entry reads as nil, and the assertion panics on it as on a value of any other type.\<close>

definition clauseArgs :: "clause \<Rightarrow> panic + gval list" where
  "clauseArgs clause =
     (case clause ''args'' of
        Some (Slice_v E_interface args) \<Rightarrow> Inr args
      | _ \<Rightarrow> Inl InterfaceConversion)"

text \<open>The loops of the mapping and struct cases (lines 35-37, 41-45, 97-99, 103-107), which
  differ in the operator only: one condition and one bound value per entry.\<close>

fun fieldConditions ::
  "scope \<Rightarrow> string \<Rightarrow> (string \<times> gval) list \<Rightarrow> string list \<Rightarrow> string list \<times> scope" where
  "fieldConditions scope opr [] sqls = (sqls, scope)"
| "fieldConditions scope opr ((key, v) # kvs) sqls =
     (let (m, scope') = AddToVars scope v
      in fieldConditions scope' opr kvs
           (sqls @ [''('' @ Quote scope key @ '' '' @ opr @ '' '' @ m @ '')'']))"

definition nonBlankFields :: "scope \<Rightarrow> gval \<Rightarrow> (string \<times> gval) list" where
  "nonBlankFields scope v =
     map (\<lambda>f. (FieldDBName f, FieldInterface f)) (filter (\<lambda>f. \<not> IsBlank f) (NewFields scope v))"

definition joinedConditions ::
  "scope \<Rightarrow> string \<Rightarrow> (string \<times> gval) list \<Rightarrow> panic + (string \<times> scope)" where
  "joinedConditions scope opr kvs =
     (let (sqls, scope') = fieldConditions scope opr kvs [] in Inr (Join sqls '' AND '', scope'))"

text \<open>\<^verbatim>\<open>buildWhereCondition\<close> (lines 18-68). The store into \<^verbatim>\<open>clause["args"]\<close> of the slice
  case is read back by the argument loop of the same call; nothing else in this file reads
  the clause again, so the updated map is not returned.\<close>

definition buildWhereCondition :: "scope \<Rightarrow> clause \<Rightarrow> panic + (string \<times> scope)" where
  "buildWhereCondition scope clause =
     (let withArgs = (\<lambda>str cl.
            case clauseArgs cl of Inl p \<Rightarrow> Inl p | Inr args \<Rightarrow> whereArgs scope str args)
      in case clause ''query'' of
        Some (String_v v) \<Rightarrow>
          if isNumber v then
            (let (m, scope') = AddToVars scope (Int_v K_int (Atoi v))
             in Inr (primaryCondition scope' m, scope'))
          else if v \<noteq> [] then withArgs (''('' @ v @ '')'') clause
          else withArgs [] clause
      | Some (Int_v k i) \<Rightarrow>
          (let (m, scope') = AddToVars scope (Int_v k i)
           in Inr (primaryCondition scope' m, scope'))
      | Some (NullInt64_v i valid) \<Rightarrow>
          (let (m, scope') = AddToVars scope (NullInt64_v i valid)
           in Inr (primaryCondition scope' m, scope'))
      | Some (Slice_v e vs) \<Rightarrow>
          if e \<noteq> E_other then
            withArgs (''('' @ Quote scope (PrimaryKey scope) @ '' in (?))'')
              (clause(''args'' \<mapsto> Slice_v E_interface [Slice_v e vs]))
          else joinedConditions scope ''='' (nonBlankFields scope (Slice_v e vs))
      | Some (Map_v kvs) \<Rightarrow> joinedConditions scope ''='' kvs
      | Some (Valuer_v v) \<Rightarrow> joinedConditions scope ''='' (nonBlankFields scope (Valuer_v v))
      | Some (Other_v n) \<Rightarrow> joinedConditions scope ''='' (nonBlankFields scope (Other_v n))
      | Some Nil_v \<Rightarrow> withArgs [] clause
      | None \<Rightarrow> withArgs [] clause)"

text \<open>\<^verbatim>\<open>buildNotCondition\<close> (lines 70-129). The numeric and integer cases print the value
  into the text with \<^verbatim>\<open>%v\<close> and bind nothing; the slice case (lines 89-94) sets \<open>str\<close> and
  the clause's arguments and then returns the empty string.\<close>

definition buildNotCondition :: "scope \<Rightarrow> clause \<Rightarrow> panic + (string \<times> scope)" where
  "buildNotCondition scope clause =
     (let primaryKey = PrimaryKey scope;
          withArgs = (\<lambda>notEqualSql str cl.
            case clauseArgs cl of
              Inl p \<Rightarrow> Inl p
            | Inr args \<Rightarrow> notArgs scope notEqualSql str args)
      in case clause ''query'' of
        Some (String_v v) \<Rightarrow>
          if isNumber v then
            Inr (''('' @ Quote scope primaryKey @ '' <> '' @ int_dec (Atoi v) @ '')'', scope)
          else if hasComparison v then
            withArgs (''NOT ('' @ v @ '')'') ('' NOT ('' @ v @ '') '') clause
          else
            withArgs (''('' @ Quote scope v @ '' <> ?)'')
              (''('' @ Quote scope v @ '' NOT IN (?))'') clause
      | Some (Int_v k i) \<Rightarrow>
          Inr (''('' @ Quote scope primaryKey @ '' <> '' @ int_dec i @ '')'', scope)
      | Some (NullInt64_v i valid) \<Rightarrow>
          Inr (''('' @ Quote scope primaryKey @ '' <> ''
                 @ ''{'' @ int_dec i @ '' '' @ (if valid then ''true'' else ''false'') @ ''}''
                 @ '')'', scope)
      | Some (Slice_v e vs) \<Rightarrow>
          if e \<noteq> E_other \<and> e \<noteq> E_interface then Inr ([], scope)
          else joinedConditions scope ''<>'' (nonBlankFields scope (Slice_v e vs))
      | Some (Map_v kvs) \<Rightarrow> joinedConditions scope ''<>'' kvs
      | Some (Valuer_v v) \<Rightarrow> joinedConditions scope ''<>'' (nonBlankFields scope (Valuer_v v))
      | Some (Other_v n) \<Rightarrow> joinedConditions scope ''<>'' (nonBlankFields scope (Other_v n))
      | Some Nil_v \<Rightarrow> withArgs [] [] clause
      | None \<Rightarrow> withArgs [] [] clause)"

section \<open>Assembling the WHERE clause\<close>

text \<open>The three loops of \<^verbatim>\<open>whereSql\<close> (lines 171-187): a clause that compiles to the empty
  string is left out.\<close>

fun buildConditions ::
  "(scope \<Rightarrow> clause \<Rightarrow> panic + (string \<times> scope)) \<Rightarrow> scope \<Rightarrow> clause list \<Rightarrow> string list
     \<Rightarrow> panic + (string list \<times> scope)" where
  "buildConditions build scope [] conditions = Inr (conditions, scope)"
| "buildConditions build scope (clause # clauses) conditions =
     (case build scope clause of
        Inl p \<Rightarrow> Inl p
      | Inr (sql, scope') \<Rightarrow>
          buildConditions build scope' clauses
            (if sql \<noteq> [] then conditions @ [sql] else conditions))"

text \<open>The filter of line 163.\<close>

definition softDeleteSql :: "scope \<Rightarrow> string" where
  "softDeleteSql scope =
     ''('' @ QuotedTableName scope @ ''.deleted_at IS NULL OR '' @ QuotedTableName scope
       @ ''.deleted_at <= '' @ [CHR 0x27] @ ''0001-01-02'' @ [CHR 0x27] @ '')''"

text \<open>Lines 160-169: the soft-delete filter and the primary-key condition.\<close>

definition primaryConditions :: "scope \<Rightarrow> string list \<times> scope" where
  "primaryConditions scope =
     (let conds = (if \<not> Unscope (Search scope) \<and> Fields scope ''deleted_at'' \<noteq> None
                   then [softDeleteSql scope] else [])
      in if \<not> PrimaryKeyZero scope then
           (let (m, scope') = AddToVars scope (PrimaryKeyValue scope)
            in (conds @ [primaryCondition scope' m], scope'))
         else (conds, scope))"

text \<open>Lines 189-207.\<close>

definition combineSql :: "string list \<Rightarrow> string list \<Rightarrow> string list \<Rightarrow> string" where
  "combineSql primaryConds andConditions orConditions =
     (let orSql = Join orConditions '' OR '';
          combinedSql0 = Join andConditions '' AND '';
          combinedSql =
            (if length combinedSql0 > 0
             then (if length orSql > 0 then combinedSql0 @ '' OR '' @ orSql else combinedSql0)
             else orSql)
      in if length primaryConds > 0 then
           (let sql = ''WHERE '' @ Join primaryConds '' AND ''
            in if length combinedSql > 0 then sql @ '' AND ('' @ combinedSql @ '')'' else sql)
         else if length combinedSql > 0 then ''WHERE '' @ combinedSql
         else [])"

text \<open>\<^verbatim>\<open>whereSql\<close> (lines 159-208).\<close>

definition whereSql :: "scope \<Rightarrow> panic + (string \<times> scope)" where
  "whereSql scope =
     (let (primaryConds, scope1) = primaryConditions scope
      in case buildConditions buildWhereCondition scope1 (WhereConditions (Search scope)) [] of
        Inl p \<Rightarrow> Inl p
      | Inr (whereConds, scope2) \<Rightarrow>
      (case buildConditions buildWhereCondition scope2 (OrConditions (Search scope)) [] of
        Inl p \<Rightarrow> Inl p
      | Inr (orConditions, scope3) \<Rightarrow>
      (case buildConditions buildNotCondition scope3 (NotConditions (Search scope)) whereConds of
        Inl p \<Rightarrow> Inl p
      | Inr (andConditions, scope4) \<Rightarrow>
          Inr (combineSql primaryConds andConditions orConditions, scope4))))"

section \<open>The assembly in the words of the specification\<close>




section \<open>Struct types as reflection shows them\<close>

text \<open>
  A type, as far as \<^verbatim>\<open>GetModelStruct\<close> looks into it: a struct type (named; its declaration
  is looked up in the type environment), a pointer, a slice, or a type of any other kind.
  \<^verbatim>\<open>time.Time\<close> is the struct type \<open>T_struct ''time.Time''\<close>.
\<close>

datatype rtype = T_struct string | T_ptr rtype | T_slice rtype | T_other string

datatype rkind = KStruct | KPtr | KSlice | KOther

fun kindOf :: "rtype \<Rightarrow> rkind" where
  "kindOf (T_struct n) = KStruct"
| "kindOf (T_ptr t) = KPtr"
| "kindOf (T_slice t) = KSlice"
| "kindOf (T_other n) = KOther"

text \<open>A struct tag, as the list of its keys and values; \<^verbatim>\<open>Tag.Get(key)\<close> is the empty string
  for a key that is not there.\<close>

type_synonym StructTag = "(string \<times> string) list"

definition TagGet :: "StructTag \<Rightarrow> string \<Rightarrow> string" where
  "TagGet tag key = (case map_of tag key of Some v \<Rightarrow> v | None \<Rightarrow> [])"

text \<open>\<^verbatim>\<open>reflect.StructField\<close>, and the declaration of a struct type: its name
  (\<^verbatim>\<open>Type.Name()\<close>), all its fields in declaration order, and, when the pointer to the type
  has a method \<^verbatim>\<open>TableName\<close>, the results of calling it without arguments.\<close>

record ReflectField =
  RName :: string
  RType :: rtype
  RTag :: StructTag
  RAnonymous :: bool

record StructDecl =
  DeclName :: string
  DeclFields :: "ReflectField list"
  DeclTableName :: "gval list option"

text \<open>
  What lies outside the two files at hand and is taken as given:
  \<^item> \<open>StructOf\<close>: the declarations of the struct types;
  \<^item> \<open>ImplementsScanner t\<close>: whether the pointer to \<open>t\<close> implements \<^verbatim>\<open>sql.Scanner\<close>;
  \<^item> \<open>FieldByName t name\<close>: whether \<^verbatim>\<open>FieldByName\<close> finds a field of that name in \<open>t\<close>;
  \<^item> \<open>ToDBName\<close> and \<open>parseTagSetting\<close>: the functions of these names.
\<close>

record TypeEnv =
  StructOf :: "string \<Rightarrow> StructDecl"
  ImplementsScanner :: "rtype \<Rightarrow> bool"
  FieldByName :: "rtype \<Rightarrow> string \<Rightarrow> bool"
  ToDBName :: "string \<Rightarrow> string"
  parseTagSetting :: "string \<Rightarrow> (string \<rightharpoonup> string)"

text \<open>The database handle \<^verbatim>\<open>scope.db\<close>, when there is one: the singular-table mode of its
  parent and what the dialect answers. \<open>HasTable\<close> and \<open>HasColumn\<close> are the answers for the
  database as it is when the operation starts.\<close>

record DB =
  singularTable :: bool
  DialectSqlTag :: "rtype \<Rightarrow> int \<Rightarrow> string"
  DialectPrimaryKeyTag :: "rtype \<Rightarrow> int \<Rightarrow> string"
  HasTable :: "string \<Rightarrow> bool"
  HasColumn :: "string \<Rightarrow> string \<Rightarrow> bool"

record Relationship =
  Kind :: string
  ForeignType :: string
  ForeignFieldName :: string
  ForeignDBName :: string
  AssociationForeignFieldName :: string
  AssociationForeignDBName :: string
  JoinTable :: string

record StructField =
  DBName :: string
  Name :: string
  Names :: "string list"
  IsPrimaryKey :: bool
  IsNormal :: bool
  IsIgnored :: bool
  IsScanner :: bool
  HasDefaultValue :: bool
  SqlTag :: string
  Tag :: StructTag
  Struct :: ReflectField
  IsForeignKey :: bool
  Relationship :: "Relationship option"

text \<open>\<^verbatim>\<open>ModelStruct\<close>. \<^verbatim>\<open>PrimaryKeyField\<close> points to one of the fields of \<^verbatim>\<open>StructFields\<close>, which
  is written to through either pointer; here it is the position of that field in the
  list.\<close>

record ModelStruct =
  PrimaryKeyField :: "nat option"
  StructFields :: "StructField list"
  TableName :: string

text \<open>The value of a scope: the nil interface, a nil pointer, or a value of a type (not
  nil when the type is a pointer). \<open>indirectType\<close> is the type of
  \<^verbatim>\<open>reflect.Indirect(reflect.ValueOf(scope.Value))\<close> when that value is valid.\<close>

datatype svalue = NilValue | NilPointer rtype | ValueOf rtype

fun indirectType :: "svalue \<Rightarrow> rtype option" where
  "indirectType NilValue = None"
| "indirectType (NilPointer t) = None"
| "indirectType (ValueOf (T_ptr t)) = Some t"
| "indirectType (ValueOf t) = Some t"

text \<open>The outcome of a call: it runs out of fuel (with no amount of fuel: it does not
  return), it panics, or it returns.\<close>

datatype 'a result = OutOfFuel | Panic | Return 'a

section \<open>Table names\<close>

text \<open>The seven patterns of \<open>pluralMapKeys\<close> are of two shapes: a literal suffix anchored
  at the end (\<^verbatim>\<open>ch$\<close>, ...), and \<^verbatim>\<open>([^s])s?$\<close>. \<open>matchKey\<close> finds the leftmost match and
  returns the text before it and the text of group 1 (empty when the pattern has no
  group); the match reaches to the end of the name, so that there is no text after it and
  no second match.\<close>

datatype pluralKey = Suffix string | NotS_OptS

fun matchKey :: "pluralKey \<Rightarrow> string \<Rightarrow> (string \<times> string) option" where
  "matchKey (Suffix suf) s =
     (if length suf \<le> length s \<and> drop (length s - length suf) s = suf
      then Some (take (length s - length suf) s, [])
      else None)"
| "matchKey NotS_OptS s =
     (case rev s of
        [] \<Rightarrow> None
      | c # r \<Rightarrow>
          if c \<noteq> CHR ''s'' then Some (rev r, [c])
          else (case r of
                  [] \<Rightarrow> None
                | c' # r' \<Rightarrow> if c' \<noteq> CHR ''s'' then Some (rev r', [c']) else None))"

text \<open>The replacement template with \<^verbatim>\<open>${1}\<close> expanded to the text of group 1.\<close>

fun expand :: "string \<Rightarrow> string \<Rightarrow> string" where
  "expand [] group1 = []"
| "expand (c # template) group1 =
     (if take 4 (c # template) = ''${1}'' then group1 @ expand (drop 3 template) group1
      else c # expand template group1)"

definition pluralMapKeys :: "pluralKey list" where
  "pluralMapKeys =
     [Suffix ''ch'', Suffix ''ss'', Suffix ''sh'', Suffix ''day'', Suffix ''y'', Suffix ''x'',
      NotS_OptS]"

definition pluralMapValues :: "string list" where
  "pluralMapValues = [''ches'', ''sses'', ''shes'', ''days'', ''ies'', ''xes'', ''${1}s'']"

text \<open>The loop of lines 151-155: every pattern that matches the name as it is by then
  rewrites it; the loop does not stop at the first match.\<close>

fun pluralLoop :: "(pluralKey \<times> string) list \<Rightarrow> string \<Rightarrow> string" where
  "pluralLoop [] name = name"
| "pluralLoop ((reg, template) # rules) name =
     (case matchKey reg name of
        Some (before, group1) \<Rightarrow> pluralLoop rules (before @ expand template group1)
      | None \<Rightarrow> pluralLoop rules name)"

text \<open>Lines 142-157.\<close>

definition tableNameOf :: "TypeEnv \<Rightarrow> DB option \<Rightarrow> StructDecl \<Rightarrow> string" where
  "tableNameOf env db decl =
     (case DeclTableName decl of
        Some results \<Rightarrow> (case results of String_v name # rest \<Rightarrow> name | _ \<Rightarrow> [])
      | None \<Rightarrow>
          (let name = ToDBName env (DeclName decl);
               plural = pluralLoop (zip pluralMapKeys pluralMapValues) name
           in case db of
                None \<Rightarrow> plural
              | Some d \<Rightarrow> if singularTable d then name else plural))"

section \<open>Reflecting a struct type\<close>

text \<open>\<^verbatim>\<open>ast.IsExported(name)\<close>: the name begins with an upper-case letter (names are taken to
  be ASCII).\<close>

definition IsExported :: "string \<Rightarrow> bool" where
  "IsExported name =
     (case name of
        [] \<Rightarrow> False
      | c # rest \<Rightarrow> 65 \<le> (of_char c :: nat) \<and> (of_char c :: nat) \<le> 90)"

text \<open>\<^verbatim>\<open>Type.Name()\<close>: the declared name of a struct type; pointer and slice types have
  none.\<close>

fun typeName :: "TypeEnv \<Rightarrow> rtype \<Rightarrow> string" where
  "typeName env (T_struct n) = DeclName (StructOf env n)"
| "typeName env (T_other n) = n"
| "typeName env (T_ptr t) = []"
| "typeName env (T_slice t) = []"

text \<open>Reading a key of a settings map: the empty string when the key is not there.\<close>

definition getSetting :: "(string \<rightharpoonup> string) \<Rightarrow> string \<Rightarrow> string" where
  "getSetting settings key = (case settings key of Some v \<Rightarrow> v | None \<Rightarrow> [])"

text \<open>
  Lines 162-287 for one exported field: the new \<^verbatim>\<open>StructField\<close>, whether it carries the
  \<^verbatim>\<open>PRIMARY_KEY\<close> setting (line 176 then makes it the primary-key field), and, for an
  embedded struct, the type whose fields are to be spliced in (lines 250-254).
\<close>

definition reflectField ::
  "TypeEnv \<Rightarrow> rtype \<Rightarrow> ReflectField \<Rightarrow> StructField \<times> bool \<times> rtype option" where
  "reflectField env scopeType fieldStruct =
     (let field =
            \<lparr>DBName = [], Name = RName fieldStruct, Names = [RName fieldStruct],
             IsPrimaryKey = False, IsNormal = False, IsIgnored = False, IsScanner = False,
             HasDefaultValue = False, SqlTag = [], Tag = RTag fieldStruct,
             Struct = fieldStruct, IsForeignKey = False, Relationship = None\<rparr>
      in if TagGet (RTag fieldStruct) ''sql'' = ''-'' then (field\<lparr>IsIgnored := True\<rparr>, False, None)
         else
           (let sqlSettings = parseTagSetting env (TagGet (Tag field) ''sql'');
                gormSettings = parseTagSetting env (TagGet (Tag field) ''gorm'');
                pk = (gormSettings ''PRIMARY_KEY'' \<noteq> None);
                fieldType = RType fieldStruct;
                indirect = (case fieldType of T_ptr t \<Rightarrow> t | _ \<Rightarrow> fieldType);
                isScanner = ImplementsScanner env fieldType;
                isTime = (indirect = T_struct ''time.Time'');
                field1 = field
                  \<lparr>IsPrimaryKey := pk,
                   HasDefaultValue := (sqlSettings ''DEFAULT'' \<noteq> None),
                   DBName := (case gormSettings ''COLUMN'' of
                                Some v \<Rightarrow> v
                              | None \<Rightarrow> ToDBName env (RName fieldStruct)),
                   IsScanner := isScanner,
                   IsNormal := (isScanner \<or> isTime)\<rparr>;
                many2many = getSetting gormSettings ''MANY2MANY'';
                polymorphic = getSetting gormSettings ''POLYMORPHIC'';
                foreignKey = (if polymorphic \<noteq> [] then polymorphic @ ''Id''
                              else getSetting gormSettings ''FOREIGNKEY'');
                foreignType = (if polymorphic \<noteq> [] then polymorphic @ ''Type''
                               else getSetting gormSettings ''FOREIGNTYPE'');
                associationForeignKey = getSetting gormSettings ''ASSOCIATIONFOREIGNKEY''
            in if IsNormal field1 then (field1, pk, None)
               else
                 (case indirect of
                    T_slice elem \<Rightarrow>
                      (let typ = (case elem of T_ptr t \<Rightarrow> t | _ \<Rightarrow> elem)
                       in if kindOf typ = KStruct then
                            (let foreignKey1 = (if foreignKey = [] then typeName env scopeType @ ''Id''
                                                else foreignKey);
                                 associationForeignKey1 =
                                   (if associationForeignKey = [] then typeName env typ @ ''Id''
                                    else associationForeignKey);
                                 kind = (if many2many \<noteq> [] then ''many_to_many'' else ''has_many'');
                                 foreignKey2 =
                                   (if many2many \<noteq> [] then foreignKey1
                                    else if FieldByName env typ foreignKey1 then foreignKey1
                                    else [])
                             in (field1\<lparr>Relationship := Some
                                   \<lparr>Kind = kind,
                                    ForeignType = foreignType,
                                    ForeignFieldName = foreignKey2,
                                    ForeignDBName = ToDBName env foreignKey2,
                                    AssociationForeignFieldName = associationForeignKey1,
                                    AssociationForeignDBName = ToDBName env associationForeignKey1,
                                    JoinTable = many2many\<rparr>\<rparr>, pk, None))
                          else (field1\<lparr>IsNormal := True\<rparr>, pk, None))
                  | T_struct n \<Rightarrow>
                      if gormSettings ''EMBEDDED'' \<noteq> None \<or> RAnonymous fieldStruct
                      then (field1, pk, Some indirect)
                      else
                        (let belongsToForeignKey = (if foreignKey = [] then Name field1 @ ''Id''
                                                    else foreignKey);
                             hasOneForeignKey = (if foreignKey = [] then typeName env scopeType @ ''Id''
                                                 else foreignKey);
                             belongsTo = FieldByName env scopeType belongsToForeignKey;
                             foreignKey1 = (if belongsTo then belongsToForeignKey else hasOneForeignKey);
                             kind = (if belongsTo then ''belongs_to'' else ''has_one'')
                         in (field1\<lparr>Relationship := Some
                               \<lparr>Kind = kind,
                                ForeignType = foreignType,
                                ForeignFieldName = foreignKey1,
                                ForeignDBName = ToDBName env foreignKey1,
                                AssociationForeignFieldName = [],
                                AssociationForeignDBName = [],
                                JoinTable = []\<rparr>\<rparr>, pk, None))
                  | _ \<Rightarrow> (field1\<lparr>IsNormal := True\<rparr>, pk, None))))"

text \<open>
  The loop over the fields (lines 160-290). \<open>nested\<close> stands for
  \<^verbatim>\<open>scope.New(reflect.New(indirectType).Interface()).GetModelStruct()\<close>, which shares the
  cache of model structs; the fields of the embedded struct are cloned with the name of
  the embedding field put before their names, and the embedding field itself follows them.
\<close>

fun fieldsLoop ::
  "((rtype \<rightharpoonup> ModelStruct) \<Rightarrow> rtype \<Rightarrow> (ModelStruct \<times> (rtype \<rightharpoonup> ModelStruct)) result)
     \<Rightarrow> TypeEnv \<Rightarrow> rtype \<Rightarrow> ReflectField list
     \<Rightarrow> StructField list \<Rightarrow> nat option \<Rightarrow> (rtype \<rightharpoonup> ModelStruct)
     \<Rightarrow> (StructField list \<times> nat option \<times> (rtype \<rightharpoonup> ModelStruct)) result" where
  "fieldsLoop nested env scopeType [] structFields primaryKeyField cache =
     Return (structFields, primaryKeyField, cache)"
| "fieldsLoop nested env scopeType (fieldStruct # rest) structFields primaryKeyField cache =
     (if IsExported (RName fieldStruct) then
        (case reflectField env scopeType fieldStruct of
           (field, pk, None) \<Rightarrow>
             fieldsLoop nested env scopeType rest (structFields @ [field])
               (if pk then Some (length structFields) else primaryKeyField) cache
         | (field, pk, Some embedded) \<Rightarrow>
             (case nested cache embedded of
                OutOfFuel \<Rightarrow> OutOfFuel
              | Panic \<Rightarrow> Panic
              | Return (modelStruct, cache') \<Rightarrow>
                  (let structFields' = structFields
                         @ map (\<lambda>f. f\<lparr>Names := RName fieldStruct # Names f\<rparr>)
                             (StructFields modelStruct)
                   in fieldsLoop nested env scopeType rest (structFields' @ [field])
                        (if pk then Some (length structFields') else primaryKeyField) cache')))
      else fieldsLoop nested env scopeType rest structFields primaryKeyField cache)"

text \<open>\<open>getScannerValue\<close> of \<^verbatim>\<open>generateSqlTag\<close> (lines 79-86): while the pointer to the type
  is a scanner and the type is a struct, go on with the type of its first field;
  \<^verbatim>\<open>Field(0)\<close> panics on a struct without fields.\<close>

fun getScannerValue :: "nat \<Rightarrow> TypeEnv \<Rightarrow> rtype \<Rightarrow> rtype result" where
  "getScannerValue 0 env t = OutOfFuel"
| "getScannerValue (Suc n) env t =
     (case t of
        T_struct name \<Rightarrow>
          if ImplementsScanner env t then
            (case DeclFields (StructOf env name) of
               [] \<Rightarrow> Panic
             | f # fs \<Rightarrow> getScannerValue n env (RType f))
          else Return t
      | _ \<Rightarrow> Return t)"

text \<open>\<^verbatim>\<open>strings.TrimSpace(s) == ""\<close>, for ASCII text.\<close>

definition blankText :: "string \<Rightarrow> bool" where
  "blankText s = list_all (\<lambda>c. is_space c \<or> c = CHR 0x0B) s"

text \<open>\<^verbatim>\<open>generateSqlTag\<close> (lines 64-108); it is called with a database handle only.\<close>

definition generateSqlTag :: "nat \<Rightarrow> TypeEnv \<Rightarrow> DB \<Rightarrow> StructField \<Rightarrow> StructField result" where
  "generateSqlTag fuel env d field =
     (let sqlSettings = parseTagSetting env (TagGet (Tag field) ''sql'');
          sqlType0 = getSetting sqlSettings ''TYPE'';
          additionalType0 = getSetting sqlSettings ''NOT NULL'' @ '' '' @ getSetting sqlSettings ''UNIQUE'';
          additionalType = (case sqlSettings ''DEFAULT'' of
                              Some v \<Rightarrow> additionalType0 @ ''DEFAULT '' @ v
                            | None \<Rightarrow> additionalType0)
      in case (if IsScanner field then getScannerValue fuel env (RType (Struct field))
               else Return (RType (Struct field))) of
           OutOfFuel \<Rightarrow> OutOfFuel
         | Panic \<Rightarrow> Panic
         | Return reflectValue \<Rightarrow>
             (let size = (case sqlSettings ''SIZE'' of Some v \<Rightarrow> Atoi v | None \<Rightarrow> 255);
                  sqlType =
                    (if sqlType0 = [] then
                       (if IsPrimaryKey field then DialectPrimaryKeyTag d reflectValue size
                        else DialectSqlTag d reflectValue size)
                     else sqlType0)
              in Return (field\<lparr>SqlTag :=
                   (if blankText additionalType then sqlType
                    else sqlType @ '' '' @ additionalType)\<rparr>)))"

text \<open>The loop of lines 292-303 over the fields collected so far.\<close>

fun sqlTagLoop ::
  "nat \<Rightarrow> TypeEnv \<Rightarrow> DB option \<Rightarrow> StructField list \<Rightarrow> StructField list \<Rightarrow> nat option
     \<Rightarrow> (StructField list \<times> nat option) result" where
  "sqlTagLoop fuel env db [] done primaryKeyField = Return (done, primaryKeyField)"
| "sqlTagLoop fuel env db (field # rest) done primaryKeyField =
     (if IsNormal field then
        (let isId = (primaryKeyField = None \<and> DBName field = ''id'');
             field1 = (if isId then field\<lparr>IsPrimaryKey := True\<rparr> else field);
             primaryKeyField1 = (if isId then Some (length done) else primaryKeyField)
         in case db of
              None \<Rightarrow> sqlTagLoop fuel env db rest (done @ [field1]) primaryKeyField1
            | Some d \<Rightarrow>
                (case generateSqlTag fuel env d field1 of
                   OutOfFuel \<Rightarrow> OutOfFuel
                 | Panic \<Rightarrow> Panic
                 | Return field2 \<Rightarrow>
                     sqlTagLoop fuel env db rest (done @ [field2]) primaryKeyField1))
      else sqlTagLoop fuel env db rest (done @ [field]) primaryKeyField)"

text \<open>Lines 116-129: the type whose model struct is asked for.\<close>

definition scopeTypeOf :: "svalue \<Rightarrow> rtype option" where
  "scopeTypeOf v =
     (case indirectType v of
        None \<Rightarrow> None
      | Some t \<Rightarrow>
          (let t1 = (case t of T_slice elem \<Rightarrow> elem | _ \<Rightarrow> t)
           in Some (case t1 of T_ptr elem \<Rightarrow> elem | _ \<Rightarrow> t1)))"

definition emptyModelStruct :: ModelStruct where
  "emptyModelStruct = \<lparr>PrimaryKeyField = None, StructFields = [], TableName = []\<rparr>"

text \<open>
  \<^verbatim>\<open>GetModelStruct\<close> (lines 113-310). \<open>db\<close> is \<^verbatim>\<open>scope.db\<close> (\<open>None\<close> when it is nil) and
  \<open>cache\<close> is \<^verbatim>\<open>scope.db.parent.ModelStructs\<close>, read and written only with a handle. The
  function calls itself for embedded structs, and a type that embeds itself makes it run
  forever: the first argument bounds the depth of the calls.
\<close>

fun GetModelStruct ::
  "nat \<Rightarrow> TypeEnv \<Rightarrow> DB option \<Rightarrow> (rtype \<rightharpoonup> ModelStruct) \<Rightarrow> svalue
     \<Rightarrow> (ModelStruct \<times> (rtype \<rightharpoonup> ModelStruct)) result" where
  "GetModelStruct 0 env db cache v = OutOfFuel"
| "GetModelStruct (Suc fuel) env db cache v =
     (case scopeTypeOf v of
        None \<Rightarrow> Return (emptyModelStruct, cache)
      | Some scopeType \<Rightarrow>
          (case (if db \<noteq> None then cache scopeType else None) of
             Some cached \<Rightarrow> Return (cached, cache)
           | None \<Rightarrow>
               (case scopeType of
                  T_struct name \<Rightarrow>
                    (let tableName = tableNameOf env db (StructOf env name)
                     in case fieldsLoop
                               (\<lambda>c t. GetModelStruct fuel env db c (ValueOf (T_ptr t)))
                               env scopeType (DeclFields (StructOf env name)) [] None cache of
                          OutOfFuel \<Rightarrow> OutOfFuel
                        | Panic \<Rightarrow> Panic
                        | Return (structFields, primaryKeyField, cache1) \<Rightarrow>
                            (case sqlTagLoop fuel env db structFields [] primaryKeyField of
                               OutOfFuel \<Rightarrow> OutOfFuel
                             | Panic \<Rightarrow> Panic
                             | Return (structFields1, primaryKeyField1) \<Rightarrow>
                                 (let modelStruct =
                                        \<lparr>PrimaryKeyField = primaryKeyField1,
                                         StructFields = structFields1,
                                         TableName = tableName\<rparr>
                                  in Return (modelStruct,
                                       if db \<noteq> None then cache1(scopeType \<mapsto> modelStruct)
                                       else cache1))))
                | _ \<Rightarrow> Return (emptyModelStruct, cache))))"


section \<open>Migration\<close>












section \<open>A scope to run the definitions on\<close>

text \<open>A dialect that numbers its markers \<^verbatim>\<open>$1\<close>, \<^verbatim>\<open>$2\<close>, ... and quotes identifiers with
  double quotes, and a scope for a table \<^verbatim>\<open>users\<close> with primary key \<^verbatim>\<open>id\<close>, no bound values
  yet and an empty search.\<close>

definition dollarBinVar :: "nat \<Rightarrow> string" where
  "dollarBinVar n = CHR ''$'' # nat_dec n"

definition doubleQuote :: "string \<Rightarrow> string" where
  "doubleQuote s = [CHR 0x22] @ s @ [CHR 0x22]"

definition testScope :: scope where
  "testScope =
     \<lparr>Search = \<lparr>WhereConditions = [], OrConditions = [], NotConditions = [], Unscope = False\<rparr>,
      SqlVars = [], BinVar = dollarBinVar, Quote = doubleQuote, PrimaryKey = ''id'',
      QuotedTableName = doubleQuote ''users'', PrimaryKeyZero = True,
      PrimaryKeyValue = Int_v K_int 0, Fields = Map.empty, NewFields = (\<lambda>v. [])\<rparr>"


section \<open>Types and a database to run the definitions on\<close>

text \<open>Modelled from the spec: \<^verbatim>\<open>ToDBName\<close> is declared outside the files at hand. By the
  spec it normalises a name to snake case: an underscore goes before every upper-case
  letter but the first, and the letters are put in lower case.\<close>

fun snakeCase :: "bool \<Rightarrow> string \<Rightarrow> string" where
  "snakeCase first [] = []"
| "snakeCase first (c # cs) =
     (if lower c \<noteq> c \<and> \<not> first then CHR ''_'' # lower c # snakeCase False cs
      else lower c # snakeCase False cs)"

text \<open>Tag settings for the tags used below: \<^verbatim>\<open>primary_key\<close> and the empty tag.\<close>

definition testSettings :: "string \<Rightarrow> (string \<rightharpoonup> string)" where
  "testSettings tag =
     (if tag = ''primary_key'' then [''PRIMARY_KEY'' \<mapsto> ''PRIMARY_KEY''] else [[] \<mapsto> []])"

text \<open>Struct types: \<^verbatim>\<open>Category\<close> with the fields \<^verbatim>\<open>Id int64\<close>, \<^verbatim>\<open>Name string\<close>,
  \<^verbatim>\<open>Rank int\<close> and an unexported field; \<^verbatim>\<open>Page\<close>, which embeds \<^verbatim>\<open>Category\<close> and has a
  field \<^verbatim>\<open>Title string\<close>; any other name (\<^verbatim>\<open>Address\<close>, \<^verbatim>\<open>Day\<close>) with the field \<^verbatim>\<open>Id\<close> only.\<close>

definition plainField :: "string \<Rightarrow> string \<Rightarrow> ReflectField" where
  "plainField name typ = \<lparr>RName = name, RType = T_other typ, RTag = [], RAnonymous = False\<rparr>"

definition testEnv :: TypeEnv where
  "testEnv =
     \<lparr>StructOf = (\<lambda>name.
        \<lparr>DeclName = name,
         DeclFields =
           (if name = ''Category''
            then [plainField ''Id'' ''int64'', plainField ''Name'' ''string'',
                  plainField ''Rank'' ''int'', plainField ''hidden'' ''bool'']
            else if name = ''Page''
            then [\<lparr>RName = ''Category'', RType = T_struct ''Category'', RTag = [],
                   RAnonymous = True\<rparr>,
                  plainField ''Title'' ''string'']
            else [plainField ''Id'' ''int64'']),
         DeclTableName = None\<rparr>),
      ImplementsScanner = (\<lambda>t. False),
      FieldByName = (\<lambda>t name. False),
      ToDBName = snakeCase True,
      parseTagSetting = testSettings\<rparr>"

text \<open>A database that has a table \<^verbatim>\<open>categories\<close> with the column \<^verbatim>\<open>id\<close> only, and a
  dialect whose column type is the name of the field's type.\<close>

definition testDB :: DB where
  "testDB =
     \<lparr>singularTable = False,
      DialectSqlTag = (\<lambda>t size. typeName testEnv t),
      DialectPrimaryKeyTag = (\<lambda>t size. typeName testEnv t @ '' PRIMARY KEY''),
      HasTable = (\<lambda>table. table = ''categories''),
      HasColumn = (\<lambda>table column. table = ''categories'' \<and> column = ''id'')\<rparr>"


section \<open>Facts about the helpers\<close>


lemma AddToVars_eq:
  "AddToVars scope v =
     (BinVar scope (Suc (length (SqlVars scope))), scope\<lparr>SqlVars := SqlVars scope @ [v]\<rparr>)"
  by (simp add: AddToVars_def)





lemma fieldConditions_eq:
  "fieldConditions scope opr kvs sqls =
     (sqls @ map (\<lambda>(kv, n). ''('' @ Quote scope (fst kv) @ '' '' @ opr @ '' '' @ BinVar scope n @ '')'')
               (zip kvs [Suc (length (SqlVars scope)) ..< Suc (length (SqlVars scope) + length kvs)]),
      scope\<lparr>SqlVars := SqlVars scope @ map snd kvs\<rparr>)"
proof (induction kvs arbitrary: scope sqls)
  case Nil
  show ?case by simp
next
  case (Cons kv kvs)
  obtain k v where kv: "kv = (k, v)" by (cases kv)
  have "[Suc (length (SqlVars scope)) ..< Suc (length (SqlVars scope) + length (kv # kvs))] =
        Suc (length (SqlVars scope))
          # [Suc (Suc (length (SqlVars scope))) ..< Suc (Suc (length (SqlVars scope)) + length kvs)]"
    by (simp add: upt_conv_Cons del: upt_Suc)
  then show ?case
    by (simp add: kv AddToVars_eq Cons.IH del: upt_Suc)
qed





















lemma fieldsLoop_cache:
  assumes "\<And>c t m c'. nested c t = Return (m, c') \<Longrightarrow> c' = c"
  shows "fieldsLoop nested env scopeType fs acc pk cache = Return (sfs, pk', cache')
           \<Longrightarrow> cache' = cache"
proof (induction fs arbitrary: acc pk cache)
  case Nil
  then show ?case by simp
next
  case (Cons f fs)
  show ?case
  proof (cases "IsExported (RName f)")
    case False
    with Cons show ?thesis by simp
  next
    case True
    obtain field tagged emb where rf: "reflectField env scopeType f = (field, tagged, emb)"
      by (cases "reflectField env scopeType f")
    show ?thesis
    proof (cases emb)
      case None
      with Cons True rf show ?thesis by simp
    next
      case (Some t)
      show ?thesis
      proof (cases "nested cache t")
        case OutOfFuel
        with Cons.prems True rf Some show ?thesis by simp
      next
        case Panic
        with Cons.prems True rf Some show ?thesis by simp
      next
        case (Return r)
        obtain m c1 where r: "r = (m, c1)" by (cases r)
        have "c1 = cache" using assms Return r by simp
        with Cons True rf Some Return r show ?thesis by (simp add: Let_def)
      qed
    qed
  qed
qed

lemma GetModelStruct_no_db:
  "GetModelStruct fuel env None cache v = Return (ms, cache') \<Longrightarrow> cache' = cache"
proof (induction fuel arbitrary: cache v ms cache')
  case 0
  then show ?case by simp
next
  case (Suc fuel)
  have nested: "\<And>c t m c'. GetModelStruct fuel env None c (ValueOf (T_ptr t)) = Return (m, c')
      \<Longrightarrow> c' = c"
    using Suc.IH by blast
  show ?case
  proof (cases "scopeTypeOf v")
    case None
    with Suc.prems show ?thesis by simp
  next
    case (Some scopeType)
    show ?thesis
    proof (cases scopeType)
      case (T_struct name)
      let ?loop = "fieldsLoop (\<lambda>c t. GetModelStruct fuel env None c (ValueOf (T_ptr t)))
          env scopeType (DeclFields (StructOf env name)) [] None cache"
      from Suc.prems Some T_struct obtain sfs pk c1 where
        l: "?loop = Return (sfs, pk, c1)" and c: "cache' = c1"
        by (auto simp: Let_def split: result.splits)
      from fieldsLoop_cache [OF nested l] c show ?thesis by simp
    qed (use Suc.prems Some in simp_all)
  qed
qed







section \<open>Clause compilation\<close>

text \<open>
  C3. The claim: a not-clause whose query is a non-empty slice of scalars or strings
  renders a primary-key \<^verbatim>\<open>NOT IN\<close> condition. On the code the slice case of
  \<^verbatim>\<open>buildNotCondition\<close> prepares that condition and then returns the empty string: for
  every slice of integers or strings, empty or not, the result is the empty text and no
  value is bound, so \<^verbatim>\<open>whereSql\<close> leaves the clause out.
\<close>

theorem buildNotCondition_slice_returns_empty:
  "buildNotCondition scope (clause(''query'' \<mapsto> Slice_v (E_int k) vs)) = Inr ([], scope)
   \<and> buildNotCondition scope (clause(''query'' \<mapsto> Slice_v E_string vs)) = Inr ([], scope)"
  by (simp add: buildNotCondition_def)



text \<open>
  C5, amended. A mapping where-clause renders one equality per key, each in its own pair
  of parentheses, joined by \<^verbatim>\<open>AND\<close> in the order in which the mapping is visited, with no
  outer pair of parentheses; the values are appended to the bound values in the order of
  the rendered equalities. For \<^verbatim>\<open>{"age": 30, "name": "bob"}\<close> the text is
  \<^verbatim>\<open>("age" = ?) AND ("name" = ?)\<close>.
\<close>

theorem buildWhereCondition_map:
  "buildWhereCondition scope (clause(''query'' \<mapsto> Map_v kvs)) =
     Inr (Join (map (\<lambda>(kv, n). ''('' @ Quote scope (fst kv) @ '' = '' @ BinVar scope n @ '')'')
                  (zip kvs [Suc (length (SqlVars scope))
                              ..< Suc (length (SqlVars scope) + length kvs)])) '' AND '',
          scope\<lparr>SqlVars := SqlVars scope @ map snd kvs\<rparr>)"
  by (simp add: buildWhereCondition_def joinedConditions_def fieldConditions_eq del: upt_Suc)

text \<open>The text with a single outer pair of parentheses is not what the two-key mapping
  renders to.\<close>

theorem buildWhereCondition_map_counterexample:
  \<open>buildWhereCondition (testScope\<lparr>BinVar := (\<lambda>n. ''?'')\<rparr>)
      [''query'' \<mapsto> Map_v [(''age'', Int_v K_int 30), (''name'', String_v ''bob'')]] =
     Inr (''("age" = ?) AND ("name" = ?)'',
          testScope\<lparr>BinVar := (\<lambda>n. ''?''), SqlVars := [Int_v K_int 30, String_v ''bob'']\<rparr>)
   \<and> map_sum id fst (buildWhereCondition (testScope\<lparr>BinVar := (\<lambda>n. ''?'')\<rparr>)
      [''query'' \<mapsto> Map_v [(''age'', Int_v K_int 30), (''name'', String_v ''bob'')]])
     \<noteq> Inr ''("age" = ? AND "name" = ?)''\<close>
  by (simp add: buildWhereCondition_def joinedConditions_def AddToVars_def testScope_def
      doubleQuote_def)




section \<open>The WHERE clause\<close>

text \<open>
  C1. The claim: the bound values are in the order in which their markers occur in the
  rendered text. \<^verbatim>\<open>whereSql\<close> compiles the or-clauses before the not-clauses, and puts the
  compiled not-clauses before the or-clauses in the text: with one or-clause
  \<^verbatim>\<open>("name = ?", "a")\<close> and one not-clause \<^verbatim>\<open>("age", 1)\<close> the bound values are
  \<^verbatim>\<open>["a", 1]\<close>, and the marker of the second value stands before the marker of the first.
  Besides, the scalar case of the argument loop of \<^verbatim>\<open>buildNotCondition\<close> rebuilds the text
  from \<open>notEqualSql\<close> for every argument, so that with two scalar arguments the marker of
  the first is lost and a question mark is left; \<^verbatim>\<open>buildWhereCondition\<close> on the same clause
  keeps both markers, in order.
\<close>

theorem whereSql_or_not_marker_order:
  \<open>map_sum id (\<lambda>(sql, scope). (sql, SqlVars scope))
      (whereSql (testScope\<lparr>Search :=
         \<lparr>WhereConditions = [],
          OrConditions =
            [[''query'' \<mapsto> String_v ''name = ?'',
              ''args'' \<mapsto> Slice_v E_interface [String_v ''a'']]],
          NotConditions =
            [[''query'' \<mapsto> String_v ''age'',
              ''args'' \<mapsto> Slice_v E_interface [Int_v K_int 1]]],
          Unscope = False\<rparr>\<rparr>))
     = Inr (''WHERE ("age" <> $2) OR (name = $1)'', [String_v ''a'', Int_v K_int 1])
   \<and> map_sum id (\<lambda>(sql, scope). (sql, SqlVars scope))
      (buildNotCondition testScope
         [''query'' \<mapsto> String_v ''name = ? AND age = ?'',
          ''args'' \<mapsto> Slice_v E_interface [String_v ''a'', Int_v K_int 1]])
     = Inr (''NOT (name = $2 AND age = ?)'', [String_v ''a'', Int_v K_int 1])
   \<and> map_sum id (\<lambda>(sql, scope). (sql, SqlVars scope))
      (buildWhereCondition testScope
         [''query'' \<mapsto> String_v ''name = ? AND age = ?'',
          ''args'' \<mapsto> Slice_v E_interface [String_v ''a'', Int_v K_int 1]])
     = Inr (''(name = $1 AND age = $2)'', [String_v ''a'', Int_v K_int 1])\<close>
  by code_simp





section \<open>The model struct of a type\<close>

text \<open>
  C7. \<^verbatim>\<open>GetModelStruct\<close> is idempotent: when a call returns a model struct, a second call
  for the same value, on the cache the first call left, returns the same model struct
  (table name, fields in their order, primary-key field) and leaves the cache as it is.
  Without a database handle the cache is not touched. With a handle the second call is
  answered without reflecting the type again (one unit of fuel is enough), and for a
  struct type the returned model struct is the one the cache holds for the type.
\<close>

theorem GetModelStruct_idempotent:
  assumes "GetModelStruct fuel env db cache v = Return (ms, cache')"
  shows "GetModelStruct fuel env db cache' v = Return (ms, cache')
       \<and> (if db = None then cache' = cache
          else GetModelStruct (Suc 0) env db cache' v = Return (ms, cache')
             \<and> (case scopeTypeOf v of
                   Some (T_struct name) \<Rightarrow> cache' (T_struct name) = Some ms
                 | _ \<Rightarrow> cache' = cache))"
proof (cases fuel)
  case 0
  with assms show ?thesis by simp
next
  case (Suc n)
  show ?thesis
  proof (cases db)
    case None
    with assms have "cache' = cache" by (simp add: GetModelStruct_no_db)
    with assms None show ?thesis by simp
  next
    case d: (Some d)
    show ?thesis
    proof (cases "scopeTypeOf v")
      case None
      with assms Suc d show ?thesis by auto
    next
      case (Some scopeType)
      show ?thesis
      proof (cases "cache scopeType")
        case hit: (Some cached)
        with assms Suc d Some show ?thesis
          by (auto split: rtype.splits)
      next
        case miss: None
        show ?thesis
        proof (cases scopeType)
          case (T_struct name)
          from assms Suc d Some miss T_struct
          have "cache' (T_struct name) = Some ms"
            by (auto simp: Let_def split: result.splits)
          with d Some T_struct Suc show ?thesis by simp
        qed (use assms Suc d Some miss in auto)
      qed
    qed
  qed
qed

theorem GetModelStruct_idempotent_witness:
  "case GetModelStruct 3 testEnv (Some testDB) Map.empty (ValueOf (T_ptr (T_struct ''Page''))) of
     Return (ms, cache') \<Rightarrow>
       GetModelStruct 3 testEnv (Some testDB) cache' (ValueOf (T_ptr (T_struct ''Page'')))
         = Return (ms, cache')
       \<and> GetModelStruct (Suc 0) testEnv (Some testDB) cache' (ValueOf (T_ptr (T_struct ''Page'')))
         = Return (ms, cache')
       \<and> cache' (T_struct ''Page'') = Some ms
       \<and> TableName ms = ''pages''
       \<and> map DBName (StructFields ms) = [''id'', ''name'', ''rank'', ''category'', ''title'']
       \<and> PrimaryKeyField ms = Some 0
       \<and> map_option TableName (cache' (T_struct ''Category'')) = Some ''categories''
   | _ \<Rightarrow> False"
proof -
  let ?v = "ValueOf (T_ptr (T_struct ''Page''))"
  let ?g = "GetModelStruct 3 testEnv (Some testDB) Map.empty ?v"
  have e: "case ?g of
      Return (ms, c) \<Rightarrow>
        TableName ms = ''pages''
        \<and> map DBName (StructFields ms) = [''id'', ''name'', ''rank'', ''category'', ''title'']
        \<and> PrimaryKeyField ms = Some 0
        \<and> map_option TableName (c (T_struct ''Category'')) = Some ''categories''
    | _ \<Rightarrow> False"
    by code_simp
  then obtain ms c where g: "?g = Return (ms, c)"
    by (cases ?g) auto
  have s: "scopeTypeOf ?v = Some (T_struct ''Page'')"
    by (simp add: scopeTypeOf_def)
  show ?thesis
    using GetModelStruct_idempotent [OF g] e
    by (simp add: g s)
qed



section \<open>Migration statements\<close>



end
